theory Spec2Isabelle
  imports Main "HOL-Library.Multiset" "HOL-Library.Char_ord" "HOL-Library.List_Lexorder"
begin

section \<open>ShowInvestor: the analytics and report pipeline of ShowInvestor.py\<close>

text \<open>
  The development follows \<^verbatim>\<open>analyze_data\<close>, \<^verbatim>\<open>generate_insights\<close> and
  \<^verbatim>\<open>generate_pdf\<close> line by line. A DataFrame is a list of rows, a row is a record of
  its columns, and an assignment to a column of the frame the caller passed in is kept
  visible by returning that frame next to the result.

  Amounts range over any linearly ordered ring (\<open>int\<close>, \<open>rat\<close>, \<open>real\<close>):
  the rounding of binary floating point, infinities and overflow are not modelled.
  What pandas does with the text of a cell is passed in as two parsers, one for numbers
  and one for dates, so every theorem holds for whatever texts the library accepts;
  a date is parsed cell by cell (the library's inference of one format for the whole
  column is not modelled); a Date cell that is empty or missing becomes NaT whatever
  the parser. Two more behaviours of the library that the program leaves at their
  defaults are arguments as well: the order in which a sort leaves rows with equal
  keys, and whether a grouping by a categorical column reports categories without
  rows.
\<close>

subsection \<open>Data\<close>

datatype month = January | February | March | April | May | June
  | July | August | September | October | November | December

text \<open>
  A value of a datetime column: NaT (no time), or a timestamp of year, month and day.
  Only the month is read by the program.
\<close>

datatype datetime = NaT | Timestamp int month nat

text \<open>
  \<^verbatim>\<open>.dt.strftime("%B")\<close>: the full month name, here the constructor of that name; NaN
  (\<open>None\<close>) for NaT.
\<close>

fun strftime_B :: "datetime \<Rightarrow> month option" where
  "strftime_B NaT = None"
| "strftime_B (Timestamp y m d) = Some m"

fun month_name :: "month \<Rightarrow> string" where
  "month_name January = ''January''"
| "month_name February = ''February''"
| "month_name March = ''March''"
| "month_name April = ''April''"
| "month_name May = ''May''"
| "month_name June = ''June''"
| "month_name July = ''July''"
| "month_name August = ''August''"
| "month_name September = ''September''"
| "month_name October = ''October''"
| "month_name November = ''November''"
| "month_name December = ''December''"

text \<open>Lines 79-80: the categories of the Month column, in calendar order.\<close>

definition month_order :: "month list" where
  "month_order = [January, February, March, April, May, June,
                  July, August, September, October, November, December]"

text \<open>The code of a value of a \<^verbatim>\<open>pd.Categorical\<close>: its position among the categories.\<close>

definition month_code :: "month \<Rightarrow> nat" where
  "month_code m = length (takeWhile (\<lambda>c. c \<noteq> m) month_order)"

text \<open>The sort key of a cell of the Month column: NaN sorts after every category.\<close>

fun month_key :: "month option \<Rightarrow> nat" where
  "month_key (Some m) = month_code m"
| "month_key None = length month_order"

datatype txn_type = Sales | Expense

text \<open>
  A cell of the Amount column as the caller's frame holds it: a number, a text, or
  NaN (a missing value). A cell of the Date or the Description column is a text, or
  missing (\<open>None\<close>).
\<close>

datatype 'a cell = Num 'a | Txt string | NaN

record 'a raw_row =
  raw_Date :: "string option"
  raw_Description :: "string option"
  raw_Amount :: "'a cell"
  raw_Type :: string

record 'a txn =
  Date :: datetime
  Description :: "string option"
  Amount :: 'a
  Type :: txn_type
  Month :: "month option"

text \<open>\<^verbatim>\<open>pd.to_datetime\<close> raises a \<^verbatim>\<open>ValueError\<close> (or a subclass of it).\<close>

datatype error = ValueError

subsection \<open>analyze_data (lines 57-83)\<close>

text \<open>
  \<^verbatim>\<open>pd.to_numeric(..., errors="coerce")\<close> on one cell: a number stays, a text is a
  number when the library's parser reads one, anything else is NaN (\<open>None\<close>).
\<close>

fun to_numeric :: "(string \<Rightarrow> 'a option) \<Rightarrow> 'a cell \<Rightarrow> 'a option" where
  "to_numeric parse_number (Num x) = Some x"
| "to_numeric parse_number (Txt s) = parse_number s"
| "to_numeric parse_number NaN = None"

text \<open>A value of the coerced (float) column, as a cell of the frame.\<close>

fun float_cell :: "'a option \<Rightarrow> 'a cell" where
  "float_cell (Some x) = Num x"
| "float_cell None = NaN"

text \<open>
  Line 64, \<^verbatim>\<open>df["Amount"] = pd.to_numeric(df["Amount"], errors="coerce")\<close>: \<^verbatim>\<open>df\<close> is
  still the object the caller passed, so the column is replaced in the caller's frame.
\<close>

definition assign_Amount :: "'a raw_row list \<Rightarrow> 'a option list \<Rightarrow> 'a raw_row list" where
  "assign_Amount df amounts = map2 (\<lambda>r a. r\<lparr>raw_Amount := float_cell a\<rparr>) df amounts"

text \<open>
  Line 67, \<^verbatim>\<open>df = df.dropna(subset=["Amount"])\<close>: a new frame of the rows whose coerced
  amount is a number, each kept here with that number. From this line on \<^verbatim>\<open>df\<close> is
  no longer the caller's frame.
\<close>

fun dropna :: "('r \<times> 'a option) list \<Rightarrow> ('r \<times> 'a) list" where
  "dropna [] = []"
| "dropna ((r, None) # rs) = dropna rs"
| "dropna ((r, Some x) # rs) = (r, x) # dropna rs"

text \<open>
  \<^verbatim>\<open>pd.to_datetime\<close> on one cell: a missing cell and an empty text become NaT; any
  other text is what the library's parser reads (a timestamp, or NaT for a text such as
  \<^verbatim>\<open>NaT\<close>), and \<open>None\<close> when the parser rejects it.
\<close>

fun datetime_of :: "(string \<Rightarrow> datetime option) \<Rightarrow> string option \<Rightarrow> datetime option" where
  "datetime_of parse_date None = Some NaT"
| "datetime_of parse_date (Some s) = (if s = [] then Some NaT else parse_date s)"

text \<open>
  Line 70, \<^verbatim>\<open>pd.to_datetime(df["Date"])\<close>: the whole column is converted, and the first
  text that the parser rejects raises.
\<close>

fun to_datetime ::
  "(string \<Rightarrow> datetime option) \<Rightarrow> string option list \<Rightarrow> error + datetime list" where
  "to_datetime parse_date [] = Inr []"
| "to_datetime parse_date (c # cs) =
     (case datetime_of parse_date c of
        None \<Rightarrow> Inl ValueError
      | Some d \<Rightarrow>
          (case to_datetime parse_date cs of
             Inl e \<Rightarrow> Inl e
           | Inr ds \<Rightarrow> Inr (d # ds)))"

text \<open>Line 73: \<^verbatim>\<open>lambda x: "Sales" if x > 0 else "Expense"\<close>.\<close>

definition classify :: "'a::linordered_idom \<Rightarrow> txn_type" where
  "classify x = (if x > 0 then Sales else Expense)"

text \<open>Lines 70-81 on one kept row: the Date, Type and Month columns of the new frame.\<close>

definition enrich :: "('a::linordered_idom) raw_row \<times> 'a \<Rightarrow> datetime \<Rightarrow> 'a txn" where
  "enrich rx d =
     \<lparr>Date = d, Description = raw_Description (fst rx), Amount = snd rx,
      Type = classify (snd rx), Month = strftime_B d\<rparr>"

text \<open>
  Line 83, \<^verbatim>\<open>df.sort_values("Month")\<close>: ascending in the category codes, the rows
  without a month last, in their order of arrival. The call leaves \<^verbatim>\<open>kind\<close> at its
  default, \<^verbatim>\<open>"quicksort"\<close>, which is not a stable sort: the order in which rows with
  equal keys come out is decided by the algorithm numpy picks for the array. That order
  is an argument of the model, a rank \<open>ties\<close> on the rows: rows with equal keys come
  out by ascending rank, and rows of equal rank in their order of arrival. With a
  constant rank the sort is stable.
\<close>

definition sort_values_Month :: "('a txn \<Rightarrow> nat) \<Rightarrow> 'a txn list \<Rightarrow> 'a txn list" where
  "sort_values_Month ties df =
     sort_key (\<lambda>r. month_key (Month r)) (sort_key ties (filter (\<lambda>r. Month r \<noteq> None) df))
     @ filter (\<lambda>r. Month r = None) df"

text \<open>
  The function returns the caller's frame as the call leaves it, and either the error
  raised or the frame returned.
\<close>

definition analyze_data ::
  "(string \<Rightarrow> 'a option) \<Rightarrow> (string \<Rightarrow> datetime option) \<Rightarrow> ('a txn \<Rightarrow> nat)
     \<Rightarrow> ('a::linordered_idom) raw_row list \<Rightarrow> 'a raw_row list \<times> (error + 'a txn list)" where
  "analyze_data parse_number parse_date ties df =
     (let amounts = map (\<lambda>r. to_numeric parse_number (raw_Amount r)) df;
          caller_df = assign_Amount df amounts;
          kept = dropna (zip df amounts)
      in (caller_df,
          case to_datetime parse_date (map (\<lambda>rx. raw_Date (fst rx)) kept) of
            Inl e \<Rightarrow> Inl e
          | Inr dates \<Rightarrow> Inr (sort_values_Month ties (map2 enrich kept dates))))"

text \<open>A row passes line 67 when its amount can be coerced to a number.\<close>

definition coercible :: "(string \<Rightarrow> 'a option) \<Rightarrow> 'a raw_row \<Rightarrow> bool" where
  "coercible parse_number r = (to_numeric parse_number (raw_Amount r) \<noteq> None)"

subsection \<open>Two sample parsers\<close>

text \<open>
  The checks on concrete tables run the model with these parsers: a text is a number
  when it is an integer literal, and a date when it is written \<^verbatim>\<open>YYYY-MM-DD\<close>; the
  text \<^verbatim>\<open>NaT\<close> is NaT. Both accept a part of what pandas accepts and reject \<^verbatim>\<open>abc\<close>
  and \<^verbatim>\<open>not-a-date\<close> as pandas does.
\<close>

definition digit_of :: "char \<Rightarrow> nat option" where
  "digit_of c = (let n = (of_char c :: nat) in if 48 \<le> n \<and> n \<le> 57 then Some (n - 48) else None)"

fun digits_acc :: "nat \<Rightarrow> string \<Rightarrow> nat option" where
  "digits_acc acc [] = Some acc"
| "digits_acc acc (c # cs) =
     (case digit_of c of None \<Rightarrow> None | Some k \<Rightarrow> digits_acc (10 * acc + k) cs)"

definition nat_of_text :: "string \<Rightarrow> nat option" where
  "nat_of_text s = (if s = [] then None else digits_acc 0 s)"

fun int_of_text :: "string \<Rightarrow> int option" where
  "int_of_text [] = None"
| "int_of_text (c # cs) =
     (if c = CHR ''-'' then map_option (\<lambda>n. - int n) (nat_of_text cs)
      else map_option int (nat_of_text (c # cs)))"

fun month_of_number :: "nat \<Rightarrow> month option" where
  "month_of_number n =
     (if n = 0 \<or> 12 < n then None else Some (month_order ! (n - 1)))"

definition iso_date_of_text :: "string \<Rightarrow> datetime option" where
  "iso_date_of_text s =
     (if s = ''NaT'' then Some NaT
      else if length s = 10 \<and> s ! 4 = CHR ''-'' \<and> s ! 7 = CHR ''-'' then
        (case (nat_of_text (take 4 s), nat_of_text (take 2 (drop 5 s)), nat_of_text (drop 8 s)) of
           (Some y, Some mo, Some d) \<Rightarrow>
             (case month_of_number mo of
                None \<Rightarrow> None
              | Some m \<Rightarrow> if d = 0 \<or> 31 < d then None else Some (Timestamp (int y) m d))
         | _ \<Rightarrow> None)
      else None)"

subsection \<open>generate_insights (lines 86-150)\<close>

text \<open>One entry of \<^verbatim>\<open>monthly_reviews\<close> (lines 121-127), a dict with these five keys.\<close>

record 'a review =
  review_Month :: month
  review_Sales :: 'a
  review_Expenses :: 'a
  review_Profit :: 'a
  review_Review :: string

text \<open>The dict returned at lines 139-150.\<close>

record 'a insights =
  total_sales :: 'a
  total_expenses :: 'a
  net_profit :: 'a
  monthly_summary :: "(month \<times> txn_type \<times> 'a) list"
  monthly_reviews :: "'a review list"
  product_performance :: "(string \<times> 'a) list"
  top_products :: "(string \<times> 'a) list"
  underperforming_products :: "(string \<times> 'a) list"

text \<open>
  Line 104, \<^verbatim>\<open>df.groupby(["Month", "Type"])["Amount"].sum().reset_index()\<close>: one row
  per group, with the sum of its amounts, the groups sorted by key (months by category
  code, the type names alphabetically). Month is a categorical column, and what
  counts as a group depends on the \<^verbatim>\<open>observed\<close> option of \<^verbatim>\<open>groupby\<close>, which the
  call leaves at the library's default: with \<^verbatim>\<open>observed=True\<close> (the default from
  pandas 3.0 on) the groups are the (month, type) pairs that occur in the frame; with
  \<^verbatim>\<open>observed=False\<close> (the default before 3.0) every category of Month is paired with
  every type that occurs in the frame, and a pair without rows gets the sum 0.
  The default in force is the first argument. A row without a month is in no group
  (\<^verbatim>\<open>dropna\<close> is left at its default as well).
\<close>

definition group_keys ::
  "bool \<Rightarrow> ('a::linordered_idom) txn list \<Rightarrow> (month \<times> txn_type) list" where
  "group_keys observed df =
     filter (\<lambda>k. if observed then (Some (fst k), snd k) \<in> (\<lambda>r. (Month r, Type r)) ` set df
                 else True)
       (List.product month_order (filter (\<lambda>t. t \<in> Type ` set df) [Expense, Sales]))"

definition groupby_Month_Type ::
  "bool \<Rightarrow> ('a::linordered_idom) txn list \<Rightarrow> (month \<times> txn_type \<times> 'a) list" where
  "groupby_Month_Type observed df =
     map (\<lambda>k. (fst k, snd k,
            sum_list (map Amount (filter (\<lambda>r. Month r = Some (fst k) \<and> Type r = snd k) df))))
       (group_keys observed df)"

text \<open>\<^verbatim>\<open>Series.unique()\<close>: the distinct values, in order of first appearance.\<close>

definition unique :: "'b list \<Rightarrow> 'b list" where
  "unique xs = rev (remdups (rev xs))"

text \<open>The body of the loop at lines 108-127, for one month of the summary.\<close>

definition monthly_review ::
  "(month \<times> txn_type \<times> ('a::linordered_idom)) list \<Rightarrow> month \<Rightarrow> 'a review" where
  "monthly_review summary m =
     (let sales = sum_list (map (\<lambda>k. snd (snd k))
                    (filter (\<lambda>k. fst k = m \<and> fst (snd k) = Sales) summary));
          expenses = sum_list (map (\<lambda>k. snd (snd k))
                    (filter (\<lambda>k. fst k = m \<and> fst (snd k) = Expense) summary));
          profit = sales + expenses;
          review =
            (if profit > 0 then
               ''The business performed well this month with a positive profit margin.''
             else if profit < 0 then
               ''Expenses were higher than sales, resulting in a loss this month. Consider reducing expenses.''
             else ''Sales and expenses were balanced this month.'')
      in \<lparr>review_Month = m, review_Sales = sales, review_Expenses = expenses,
          review_Profit = profit, review_Review = review\<rparr>)"

text \<open>
  Line 130, \<^verbatim>\<open>df[df["Type"] == "Sales"].groupby("Description")["Amount"].sum().reset_index()\<close>:
  one row per description, the descriptions sorted. A row without a description is in
  no group.
\<close>

definition groupby_Description ::
  "('a::linordered_idom) txn list \<Rightarrow> (string \<times> 'a) list" where
  "groupby_Description df =
     map (\<lambda>d. (d, sum_list (map Amount (filter (\<lambda>r. Description r = Some d) df))))
       (sort (remdups (List.map_filter Description df)))"

text \<open>
  Line 131, \<^verbatim>\<open>sort_values(by="Amount", ascending=False)\<close>. pandas reverses the rows,
  has numpy sort them ascending and reverses the outcome. The sort is again the default
  one, which is not stable, and \<open>ties\<close> is again the order in which it leaves rows with
  equal keys: they come out by ascending rank, rows of equal rank in the order of the
  groups.
\<close>

definition sort_values_desc ::
  "('b \<Rightarrow> nat) \<Rightarrow> ('b \<Rightarrow> 'k::linorder) \<Rightarrow> 'b list \<Rightarrow> 'b list" where
  "sort_values_desc ties key xs = rev (sort_key key (rev (sort_key ties xs)))"

text \<open>\<^verbatim>\<open>head(n)\<close> and \<^verbatim>\<open>tail(n)\<close> of a frame.\<close>

definition head :: "nat \<Rightarrow> 'b list \<Rightarrow> 'b list" where
  "head n xs = take n xs"

definition tail :: "nat \<Rightarrow> 'b list \<Rightarrow> 'b list" where
  "tail n xs = drop (length xs - n) xs"

definition generate_insights ::
  "bool \<Rightarrow> (string \<times> 'a \<Rightarrow> nat) \<Rightarrow> ('a::linordered_idom) txn list \<Rightarrow> 'a insights" where
  "generate_insights observed ties df =
     (let sales_total = sum_list (map Amount (filter (\<lambda>r. Type r = Sales) df));
          expenses_total = sum_list (map Amount (filter (\<lambda>r. Type r = Expense) df));
          profit_total = sales_total + expenses_total;
          summary = groupby_Month_Type observed df;
          reviews = map (monthly_review summary) (unique (map fst summary));
          ranking = sort_values_desc ties snd (groupby_Description (filter (\<lambda>r. Type r = Sales) df))
      in \<lparr>total_sales = sales_total, total_expenses = expenses_total, net_profit = profit_total,
          monthly_summary = summary, monthly_reviews = reviews,
          product_performance = ranking, top_products = head 5 ranking,
          underperforming_products = tail 5 ranking\<rparr>)"

subsection \<open>generate_pdf (lines 153-282)\<close>

text \<open>
  A chart is kept as the series it was drawn from, a table cell as a label or as the
  amount printed by \<^verbatim>\<open>f"N{x:,.2f}"\<close> (N the currency sign), and the document as the
  list of flowables handed to \<^verbatim>\<open>doc.build\<close>; table styles and the layout of pages are
  not modelled.
\<close>

datatype 'a picture =
    Logo string
  | AggregateChart "month list" "'a list" "'a list" "'a list"
  | MonthlyChart month 'a 'a

datatype style = Title | Heading2 | Normal

datatype 'a tcell = Label string | Naira 'a

datatype 'a flowable =
    Img "'a picture" nat nat
  | Paragraph string style
  | Spacer nat nat
  | Table "'a tcell list list" "nat list"
  | PageBreak

text \<open>Lines 153-176: months, sales, absolute expenses and profit of every review.\<close>

definition generate_aggregate_chart ::
  "('a::linordered_idom) review list \<Rightarrow> 'a picture" where
  "generate_aggregate_chart reviews =
     AggregateChart (map review_Month reviews) (map review_Sales reviews)
       (map (\<lambda>r. \<bar>review_Expenses r\<bar>) reviews) (map review_Profit reviews)"

text \<open>Lines 179-196.\<close>

definition generate_monthly_chart :: "month \<Rightarrow> 'a \<Rightarrow> ('a::linordered_idom) \<Rightarrow> 'a picture" where
  "generate_monthly_chart m sales expenses = MonthlyChart m sales \<bar>expenses\<bar>"

text \<open>The loop at lines 224-230, which appends one row per review to \<^verbatim>\<open>table_data\<close>.\<close>

fun summary_rows ::
  "('a::linordered_idom) tcell list list \<Rightarrow> 'a review list \<Rightarrow> 'a tcell list list" where
  "summary_rows table_data [] = table_data"
| "summary_rows table_data (review # rest) =
     summary_rows
       (table_data @
        [[Label (month_name (review_Month review)), Naira (review_Sales review),
          Naira \<bar>review_Expenses review\<bar>, Naira (review_Profit review)]])
       rest"

text \<open>The loop at lines 255-277, which appends to \<^verbatim>\<open>elements\<close> for every review.\<close>

fun monthly_pages ::
  "('a::linordered_idom) flowable list \<Rightarrow> 'a review list \<Rightarrow> 'a flowable list" where
  "monthly_pages elements [] = elements"
| "monthly_pages elements (review # rest) =
     (let elements1 = elements @
            [Paragraph (''Monthly Performance - '' @ month_name (review_Month review)) Heading2];
          table_data =
            [[Label ''Sales'', Naira (review_Sales review)],
             [Label ''Expenses'', Naira \<bar>review_Expenses review\<bar>],
             [Label ''Profit'', Naira (review_Profit review)]];
          elements2 = elements1 @ [Table table_data [200, 200]];
          monthly_chart = generate_monthly_chart (review_Month review) (review_Sales review)
                            (review_Expenses review);
          elements3 = elements2 @ [Img monthly_chart 400 250] @ [Spacer 1 12];
          elements4 = elements3 @
            [Paragraph (''**Summary**: '' @ review_Review review) Normal] @ [PageBreak]
      in monthly_pages elements4 rest)"

text \<open>
  The arguments \<^verbatim>\<open>data\<close> and \<^verbatim>\<open>file_name\<close> are not read by the function and are left
  out; \<open>today\<close> is the text of \<^verbatim>\<open>datetime.now().strftime('%Y-%m-%d')\<close>.
\<close>

definition generate_pdf ::
  "string \<Rightarrow> string option \<Rightarrow> string option \<Rightarrow> string \<Rightarrow> ('a::linordered_idom) insights
     \<Rightarrow> 'a flowable list" where
  "generate_pdf title business_logo business_name today ins =
     (let elements0 = (case business_logo of None \<Rightarrow> [] | Some l \<Rightarrow> [Img (Logo l) 100 100]);
          shown_name = (case business_name of
                          None \<Rightarrow> ''Business Name''
                        | Some n \<Rightarrow> if n = [] then ''Business Name'' else n);
          elements1 = elements0 @
            [Paragraph (''<b>'' @ shown_name @ ''</b>'') Title,
             Paragraph title Heading2,
             Paragraph (''Report Date: '' @ today) Normal,
             Spacer 1 12,
             Paragraph ''Annual Performance Summary (Detailed)'' Heading2];
          table_data = summary_rows [[Label ''Month'', Label ''Sales'', Label ''Expenses'',
                                      Label ''Profit'']] (monthly_reviews ins);
          elements2 = elements1 @ [Table table_data [100, 100, 100, 100], Spacer 1 12];
          aggregate_chart = generate_aggregate_chart (monthly_reviews ins);
          elements3 = elements2 @
            [Paragraph ''Overall Performance Chart'' Heading2,
             Img aggregate_chart 400 250,
             PageBreak]
      in monthly_pages elements3 (monthly_reviews ins))"

section \<open>Properties of analyze_data\<close>

subsection \<open>What the stages compute\<close>

lemma dropna_zip_map:
  "dropna (zip xs (map f xs)) = map (\<lambda>r. (r, the (f r))) (filter (\<lambda>r. f r \<noteq> None) xs)"
proof (induction xs)
  case Nil
  show ?case by simp
next
  case (Cons x xs)
  show ?case
  proof (cases "f x")
    case None
    then show ?thesis using Cons.IH by simp
  next
    case (Some y)
    then show ?thesis using Cons.IH by simp
  qed
qed

lemma to_datetime_Inl:
  "(to_datetime pd ss = Inl ValueError) = (\<exists>s\<in>set ss. datetime_of pd s = None)"
proof (induction ss)
  case Nil
  show ?case by simp
next
  case (Cons s ss)
  show ?case
  proof (cases "datetime_of pd s")
    case None
    then show ?thesis by simp
  next
    case (Some d)
    show ?thesis
    proof (cases "to_datetime pd ss")
      case (Inl e)
      moreover have "e = ValueError" by (cases e) simp
      ultimately show ?thesis using Some Cons.IH by simp
    next
      case (Inr ds)
      then show ?thesis using Some Cons.IH by simp
    qed
  qed
qed


lemma analyze_data_snd:
  "snd (analyze_data pn pd ties df) =
     (case to_datetime pd (map raw_Date (filter (coercible pn) df)) of
        Inl e \<Rightarrow> Inl e
      | Inr dates \<Rightarrow> Inr (sort_values_Month ties
          (map2 (\<lambda>r d. enrich (r, the (to_numeric pn (raw_Amount r))) d)
             (filter (coercible pn) df) dates)))"
proof -
  have z: "map2 enrich (map (\<lambda>r. (r, the (f r))) xs) ds = map2 (\<lambda>r d. enrich (r, the (f r)) d) xs ds"
    for f :: "'a raw_row \<Rightarrow> 'a option" and xs ds
    by (simp add: zip_map1 case_prod_unfold)
  have c: "coercible pn = (\<lambda>r. to_numeric pn (raw_Amount r) \<noteq> None)"
    by (rule ext) (simp only: coercible_def)
  show ?thesis
    unfolding analyze_data_def Let_def snd_conv dropna_zip_map z c
    by (simp only: map_map comp_def fst_conv)
qed

lemma analyze_data_fst:
  "fst (analyze_data pn pd ties df) =
     map (\<lambda>r. r\<lparr>raw_Amount := float_cell (to_numeric pn (raw_Amount r))\<rparr>) df"
  unfolding analyze_data_def Let_def fst_conv assign_Amount_def
  by (induction df) simp_all

lemma map2_enrich_props:
  assumes "r \<in> set (map2 (\<lambda>x d. enrich (x, the (f x)) d) xs ds)"
  shows "Type r = classify (Amount r)"
proof -
  from assms obtain x d where "r = enrich (x, the (f x)) d"
    by (auto simp: set_zip)
  then show ?thesis by (simp add: enrich_def)
qed

lemma mset_sort_values_Month: "mset (sort_values_Month ties xs) = mset xs"
proof -
  have "mset (filter (\<lambda>r. Month r \<noteq> None) xs) + mset (filter (\<lambda>r. Month r = None) xs) = mset xs"
    by (induction xs) simp_all
  then show ?thesis by (simp add: sort_values_Month_def)
qed

lemma set_sort_values_Month: "set (sort_values_Month ties xs) = set xs"
  using mset_sort_values_Month [of ties xs] by (rule mset_eq_setD)

lemma classify_iff:
  "(classify x = Sales) = (0 < x)" "(classify x = Expense) = (x \<le> 0)"
  by (auto simp: classify_def)

lemma analyze_data_Inr:
  assumes "snd (analyze_data pn pd ties df) = Inr out"
  obtains dates where
    "to_datetime pd (map raw_Date (filter (coercible pn) df)) = Inr dates"
    "out = sort_values_Month ties
            (map2 (\<lambda>r d. enrich (r, the (to_numeric pn (raw_Amount r))) d) (filter (coercible pn) df) dates)"
  using assms unfolding analyze_data_snd by (cases "to_datetime pd (map raw_Date (filter (coercible pn) df))") simp_all


lemma analyze_data_fails_iff:
  "(snd (analyze_data pn pd ties df) = Inl ValueError) =
     (\<exists>r\<in>set df. coercible pn r \<and> datetime_of pd (raw_Date r) = None)"
proof (cases "to_datetime pd (map raw_Date (filter (coercible pn) df))")
  case (Inl e)
  have e: "e = ValueError" by (cases e) simp
  from Inl have "\<exists>s\<in>set (map raw_Date (filter (coercible pn) df)). datetime_of pd s = None"
    unfolding e by (simp only: to_datetime_Inl)
  then have "\<exists>r\<in>set df. coercible pn r \<and> datetime_of pd (raw_Date r) = None"
    by auto
  moreover have "snd (analyze_data pn pd ties df) = Inl ValueError"
    unfolding analyze_data_snd Inl e by simp
  ultimately show ?thesis by simp
next
  case (Inr dates)
  then have "\<not> (\<exists>s\<in>set (map raw_Date (filter (coercible pn) df)). datetime_of pd s = None)"
    using to_datetime_Inl [of pd "map raw_Date (filter (coercible pn) df)"] by simp
  then have "\<not> (\<exists>r\<in>set df. coercible pn r \<and> datetime_of pd (raw_Date r) = None)"
    by auto
  moreover have "snd (analyze_data pn pd ties df) \<noteq> Inl ValueError"
    unfolding analyze_data_snd Inr by simp
  ultimately show ?thesis by simp
qed




lemma float_cell_to_numeric:
  "(\<forall>s. c \<noteq> Txt s) \<Longrightarrow> float_cell (to_numeric pn c) = c"
  by (cases c) simp_all

subsection \<open>Classification by the sign of the amount\<close>

text \<open>
  Claim C1. Whenever normalization returns a frame, every row of it is typed Sales exactly
  when its amount is greater than 0 and Expense exactly when its amount is at most 0 (so
  an amount of zero is an Expense); and the type label that came with the input has no
  influence: relabelling the input rows in any way gives the same frame.
\<close>

theorem type_follows_amount_sign:
  assumes "snd (analyze_data parse_number parse_date ties df) = Inr out"
  shows "(\<forall>r\<in>set out. (Type r = Sales \<longleftrightarrow> 0 < Amount r) \<and> (Type r = Expense \<longleftrightarrow> Amount r \<le> 0))
       \<and> snd (analyze_data parse_number parse_date ties (map (\<lambda>r. r\<lparr>raw_Type := relabel r\<rparr>) df)) = Inr out"
proof -
  let ?g = "\<lambda>r. r\<lparr>raw_Type := relabel r\<rparr>"
  from assms obtain dates where
    d: "to_datetime parse_date (map raw_Date (filter (coercible parse_number) df)) = Inr dates" and
    out: "out = sort_values_Month ties
            (map2 (\<lambda>r d. enrich (r, the (to_numeric parse_number (raw_Amount r))) d)
               (filter (coercible parse_number) df) dates)"
    by (rule analyze_data_Inr)
  have "Type r = classify (Amount r)" if "r \<in> set out" for r
    using that unfolding out set_sort_values_Month by (rule map2_enrich_props)
  then have a: "\<forall>r\<in>set out. (Type r = Sales \<longleftrightarrow> 0 < Amount r) \<and> (Type r = Expense \<longleftrightarrow> Amount r \<le> 0)"
    by (simp add: classify_iff)
  have cg: "coercible parse_number (?g r) = coercible parse_number r" for r
    by (simp add: coercible_def)
  have f: "filter (coercible parse_number) (map ?g df) = map ?g (filter (coercible parse_number) df)"
    by (simp add: filter_map comp_def cg)
  have e: "map2 (\<lambda>r d. enrich (r, the (to_numeric parse_number (raw_Amount r))) d) (map ?g xs) ds
         = map2 (\<lambda>r d. enrich (r, the (to_numeric parse_number (raw_Amount r))) d) xs ds" for xs ds
    by (simp add: zip_map1 enrich_def case_prod_unfold)
  have m: "map raw_Date (map ?g xs) = map raw_Date xs" for xs :: "'a raw_row list"
    by simp
  have "snd (analyze_data parse_number parse_date ties (map ?g df)) = Inr out"
    unfolding analyze_data_snd f e m d out by simp
  with a show ?thesis by simp
qed

text \<open>
  A sales file holding a positive amount as text, a negative amount and a zero amount,
  with labels that disagree with the signs.
\<close>

theorem type_follows_amount_sign_witness:
  "snd (analyze_data int_of_text iso_date_of_text (\<lambda>r. 0)
     [\<lparr>raw_Date = Some ''2024-03-05'', raw_Description = Some ''Widget'', raw_Amount = Txt ''100'', raw_Type = ''Expense''\<rparr>,
      \<lparr>raw_Date = Some ''2024-01-10'', raw_Description = Some ''Rent'', raw_Amount = Num (-40), raw_Type = ''Sales''\<rparr>,
      \<lparr>raw_Date = Some ''2024-02-20'', raw_Description = Some ''Sample'', raw_Amount = Num 0, raw_Type = ''Sales''\<rparr>])
   = Inr
     [\<lparr>Date = Timestamp 2024 January 10, Description = Some ''Rent'', Amount = -40, Type = Expense, Month = Some January\<rparr>,
      \<lparr>Date = Timestamp 2024 February 20, Description = Some ''Sample'', Amount = 0, Type = Expense, Month = Some February\<rparr>,
      \<lparr>Date = Timestamp 2024 March 5, Description = Some ''Widget'', Amount = 100, Type = Sales, Month = Some March\<rparr>]
   \<and> snd (analyze_data int_of_text iso_date_of_text (\<lambda>r. 0)
       (map (\<lambda>r. r\<lparr>raw_Type := ''Sales''\<rparr>)
     [\<lparr>raw_Date = Some ''2024-03-05'', raw_Description = Some ''Widget'', raw_Amount = Txt ''100'', raw_Type = ''Expense''\<rparr>,
      \<lparr>raw_Date = Some ''2024-01-10'', raw_Description = Some ''Rent'', raw_Amount = Num (-40), raw_Type = ''Sales''\<rparr>,
      \<lparr>raw_Date = Some ''2024-02-20'', raw_Description = Some ''Sample'', raw_Amount = Num 0, raw_Type = ''Sales''\<rparr>]))
   = Inr
     [\<lparr>Date = Timestamp 2024 January 10, Description = Some ''Rent'', Amount = -40, Type = Expense, Month = Some January\<rparr>,
      \<lparr>Date = Timestamp 2024 February 20, Description = Some ''Sample'', Amount = 0, Type = Expense, Month = Some February\<rparr>,
      \<lparr>Date = Timestamp 2024 March 5, Description = Some ''Widget'', Amount = 100, Type = Sales, Month = Some March\<rparr>]"
proof -
  have h: "snd (analyze_data int_of_text iso_date_of_text (\<lambda>r. 0)
     [\<lparr>raw_Date = Some ''2024-03-05'', raw_Description = Some ''Widget'', raw_Amount = Txt ''100'', raw_Type = ''Expense''\<rparr>,
      \<lparr>raw_Date = Some ''2024-01-10'', raw_Description = Some ''Rent'', raw_Amount = Num (-40), raw_Type = ''Sales''\<rparr>,
      \<lparr>raw_Date = Some ''2024-02-20'', raw_Description = Some ''Sample'', raw_Amount = Num 0, raw_Type = ''Sales''\<rparr>])
   = Inr
     [\<lparr>Date = Timestamp 2024 January 10, Description = Some ''Rent'', Amount = -40, Type = Expense, Month = Some January\<rparr>,
      \<lparr>Date = Timestamp 2024 February 20, Description = Some ''Sample'', Amount = 0, Type = Expense, Month = Some February\<rparr>,
      \<lparr>Date = Timestamp 2024 March 5, Description = Some ''Widget'', Amount = 100, Type = Sales, Month = Some March\<rparr>]"
    by code_simp
  from type_follows_amount_sign [OF h, where relabel = "\<lambda>r. ''Sales''"] h show ?thesis
    by simp
qed

subsection \<open>Uncoercible amounts and unparseable dates\<close>




text \<open>
  Claim C10. Rows are dropped for their amount before any date is parsed: normalization
  fails exactly when some row with a coercible amount has a date that cannot be parsed
  (a text that is not empty and that the parser rejects), and the rows whose amount
  cannot be coerced have no influence on the outcome, whatever their dates are
  (removing them from the input beforehand changes nothing).
\<close>

theorem uncoercible_rows_never_abort:
  "(snd (analyze_data parse_number parse_date ties df) = Inl ValueError) =
     (\<exists>r\<in>set df. coercible parse_number r \<and> datetime_of parse_date (raw_Date r) = None)
   \<and> snd (analyze_data parse_number parse_date ties (filter (coercible parse_number) df)) =
     snd (analyze_data parse_number parse_date ties df)"
proof
  show "(snd (analyze_data parse_number parse_date ties df) = Inl ValueError) =
     (\<exists>r\<in>set df. coercible parse_number r \<and> datetime_of parse_date (raw_Date r) = None)"
    by (rule analyze_data_fails_iff)
  have ff: "filter (coercible parse_number) (filter (coercible parse_number) df)
          = filter (coercible parse_number) df"
    by simp
  show "snd (analyze_data parse_number parse_date ties (filter (coercible parse_number) df))
      = snd (analyze_data parse_number parse_date ties df)"
    unfolding analyze_data_snd ff by (rule refl)
qed

theorem uncoercible_rows_never_abort_witness:
  "snd (analyze_data int_of_text iso_date_of_text (\<lambda>r. 0)
     [\<lparr>raw_Date = Some ''not-a-date'', raw_Description = Some ''Junk'', raw_Amount = Txt ''abc'', raw_Type = ''Sales''\<rparr>,
      \<lparr>raw_Date = Some ''2024-01-05'', raw_Description = Some ''Widget'', raw_Amount = Num 100, raw_Type = ''Sales''\<rparr>])
   = snd (analyze_data int_of_text iso_date_of_text (\<lambda>r. 0)
     [\<lparr>raw_Date = Some ''2024-01-05'', raw_Description = Some ''Widget'', raw_Amount = Num 100, raw_Type = ''Sales''\<rparr>])
   \<and> snd (analyze_data int_of_text iso_date_of_text (\<lambda>r. 0)
     [\<lparr>raw_Date = Some ''not-a-date'', raw_Description = Some ''Junk'', raw_Amount = Txt ''abc'', raw_Type = ''Sales''\<rparr>,
      \<lparr>raw_Date = Some ''2024-01-05'', raw_Description = Some ''Widget'', raw_Amount = Num 100, raw_Type = ''Sales''\<rparr>])
   \<noteq> Inl ValueError"
proof -
  let ?A = "[\<lparr>raw_Date = Some ''not-a-date'', raw_Description = Some ''Junk'', raw_Amount = Txt ''abc'', raw_Type = ''Sales''\<rparr>,
      \<lparr>raw_Date = Some ''2024-01-05'', raw_Description = Some ''Widget'', raw_Amount = Num 100, raw_Type = ''Sales''\<rparr>]"
  have f: "filter (coercible int_of_text) ?A = [\<lparr>raw_Date = Some ''2024-01-05'', raw_Description = Some ''Widget'', raw_Amount = Num 100, raw_Type = ''Sales''\<rparr>]"
    by code_simp
  have n: "\<not> (\<exists>r\<in>set ?A. coercible int_of_text r \<and> datetime_of iso_date_of_text (raw_Date r) = None)"
    by code_simp
  from uncoercible_rows_never_abort [where df = ?A and parse_number = int_of_text and parse_date = iso_date_of_text and ties = "\<lambda>r. 0"] f n
  show ?thesis by simp
qed

subsection \<open>The caller's frame\<close>

text \<open>
  Claim C9, as the code has it. The call overwrites the Amount column of the frame it
  was given with the coerced amounts: a text becomes the number it denotes, or NaN. It
  changes nothing else of that frame: the rows are the same in number and order, the
  Date, Description and Type columns are as they were, and a frame whose amounts are
  all numbers or NaN is left as it was. The normalized rows are returned as a new frame.
\<close>

theorem caller_frame_Amount_overwritten:
  "fst (analyze_data parse_number parse_date ties df) =
     map (\<lambda>r. r\<lparr>raw_Amount := float_cell (to_numeric parse_number (raw_Amount r))\<rparr>) df
   \<and> length (fst (analyze_data parse_number parse_date ties df)) = length df
   \<and> map raw_Date (fst (analyze_data parse_number parse_date ties df)) = map raw_Date df
   \<and> map raw_Description (fst (analyze_data parse_number parse_date ties df)) = map raw_Description df
   \<and> map raw_Type (fst (analyze_data parse_number parse_date ties df)) = map raw_Type df
   \<and> ((\<forall>r\<in>set df. \<forall>s. raw_Amount r \<noteq> Txt s) \<longrightarrow>
        fst (analyze_data parse_number parse_date ties df) = df)"
proof -
  have "map (\<lambda>r. r\<lparr>raw_Amount := float_cell (to_numeric parse_number (raw_Amount r))\<rparr>) df = df"
    if "\<forall>r\<in>set df. \<forall>s. raw_Amount r \<noteq> Txt s"
  proof (rule map_idI)
    fix r assume "r \<in> set df"
    with that have "\<forall>s. raw_Amount r \<noteq> Txt s" by simp
    then show "r\<lparr>raw_Amount := float_cell (to_numeric parse_number (raw_Amount r))\<rparr> = r"
      by (simp add: float_cell_to_numeric)
  qed
  then show ?thesis
    unfolding analyze_data_fst by (simp add: comp_def)
qed

theorem caller_frame_Amount_overwritten_witness:
  "fst (analyze_data int_of_text iso_date_of_text (\<lambda>r. 0)
     [\<lparr>raw_Date = Some ''2024-01-10'', raw_Description = Some ''Rent'', raw_Amount = Num (-40), raw_Type = ''Expense''\<rparr>,
      \<lparr>raw_Date = Some ''2024-01-05'', raw_Description = Some ''Widget'', raw_Amount = NaN, raw_Type = ''Sales''\<rparr>])
   = [\<lparr>raw_Date = Some ''2024-01-10'', raw_Description = Some ''Rent'', raw_Amount = Num (-40), raw_Type = ''Expense''\<rparr>,
      \<lparr>raw_Date = Some ''2024-01-05'', raw_Description = Some ''Widget'', raw_Amount = NaN, raw_Type = ''Sales''\<rparr>]"
proof -
  let ?A = "[\<lparr>raw_Date = Some ''2024-01-10'', raw_Description = Some ''Rent'', raw_Amount = Num (-40), raw_Type = ''Expense''\<rparr>,
      \<lparr>raw_Date = Some ''2024-01-05'', raw_Description = Some ''Widget'', raw_Amount = NaN, raw_Type = ''Sales''\<rparr>]"
  have "\<forall>r\<in>set ?A. \<forall>s. raw_Amount r \<noteq> Txt s"
    by simp
  with caller_frame_Amount_overwritten [where df = ?A and parse_number = int_of_text and parse_date = iso_date_of_text and ties = "\<lambda>r. 0"]
  show ?thesis by blast
qed

text \<open>
  Claim C9 as it is written says that the caller's table is left unchanged. A table
  with the amount \<^verbatim>\<open>abc\<close> comes back from the call with NaN in that cell.
\<close>

theorem caller_frame_changed_counterexample:
  "fst (analyze_data int_of_text iso_date_of_text (\<lambda>r. 0)
     [\<lparr>raw_Date = Some ''2024-01-05'', raw_Description = Some ''Widget'', raw_Amount = Txt ''abc'', raw_Type = ''Sales''\<rparr>])
   = [\<lparr>raw_Date = Some ''2024-01-05'', raw_Description = Some ''Widget'', raw_Amount = NaN, raw_Type = ''Sales''\<rparr>]
   \<and> fst (analyze_data int_of_text iso_date_of_text (\<lambda>r. 0)
     [\<lparr>raw_Date = Some ''2024-01-05'', raw_Description = Some ''Widget'', raw_Amount = Txt ''abc'', raw_Type = ''Sales''\<rparr>])
   \<noteq> [\<lparr>raw_Date = Some ''2024-01-05'', raw_Description = Some ''Widget'', raw_Amount = Txt ''abc'', raw_Type = ''Sales''\<rparr>]"
  by code_simp

section \<open>Properties of generate_insights\<close>

subsection \<open>The months of the summary and their sums\<close>

lemma remdups_append_disjoint:
  "set xs \<inter> set ys = {} \<Longrightarrow> remdups (xs @ ys) = remdups xs @ remdups ys"
  by (induction xs) auto

lemma remdups_replicate_one: "remdups (replicate k m) = (if k = 0 then [] else [m])"
  by (induction k) auto

lemma unique_append_disjoint:
  assumes "set xs \<inter> set ys = {}"
  shows "unique (xs @ ys) = unique xs @ unique ys"
proof -
  have "set (rev ys) \<inter> set (rev xs) = {}"
    using assms by auto
  then have "remdups (rev ys @ rev xs) = remdups (rev ys) @ remdups (rev xs)"
    by (rule remdups_append_disjoint)
  then show ?thesis by (simp add: unique_def)
qed

lemma unique_replicate: "unique (replicate k m) = (if k = 0 then [] else [m])"
  by (simp add: unique_def remdups_replicate_one)

lemma fst_filter_Pair:
  "map fst (filter P (map (Pair m) ts)) = replicate (length (filter (\<lambda>t. P (m, t)) ts)) m"
  by (induction ts) simp_all

lemma unique_fst_product:
  assumes "distinct ms"
  shows "unique (map fst (filter P (List.product ms ts))) = filter (\<lambda>m. \<exists>t\<in>set ts. P (m, t)) ms"
  using assms
proof (induction ms)
  case Nil
  show ?case by (simp add: unique_def)
next
  case (Cons m ms)
  have sub: "set (map fst (filter P (List.product ms ts))) \<subseteq> set ms"
    by auto
  have dis: "set (replicate (length (filter (\<lambda>t. P (m, t)) ts)) m)
               \<inter> set (map fst (filter P (List.product ms ts))) = {}"
    using sub Cons.prems by (auto simp: set_replicate_conv_if)
  have k: "(length (filter (\<lambda>t. P (m, t)) ts) = 0) = (\<not> (\<exists>t\<in>set ts. P (m, t)))"
    by (simp add: filter_empty_conv)
  have "unique (map fst (filter P (List.product (m # ms) ts)))
      = unique (replicate (length (filter (\<lambda>t. P (m, t)) ts)) m)
        @ unique (map fst (filter P (List.product ms ts)))"
    by (simp only: product.simps filter_append map_append fst_filter_Pair
          unique_append_disjoint [OF dis])
  also have "\<dots> = filter (\<lambda>m. \<exists>t\<in>set ts. P (m, t)) (m # ms)"
    using Cons.IH Cons.prems by (simp add: unique_replicate k del: length_0_conv)
  finally show ?case .
qed

lemma distinct_month_order: "distinct month_order"
  by (simp add: month_order_def)

lemma in_month_order: "m \<in> set month_order"
  by (cases m) (simp_all add: month_order_def)


lemma distinct_group_keys: "distinct (group_keys observed df)"
  unfolding group_keys_def
  by (intro distinct_filter distinct_product distinct_month_order) simp

lemma set_group_keys:
  "(k \<in> set (group_keys observed df)) =
     (snd k \<in> Type ` set df \<and> (observed \<longrightarrow> (Some (fst k), snd k) \<in> (\<lambda>r. (Month r, Type r)) ` set df))"
proof -
  have t: "snd k = Expense \<or> snd k = Sales" by (cases "snd k") simp_all
  show ?thesis
    unfolding group_keys_def using t in_month_order [of "fst k"]
    by (cases k) auto
qed

lemma set_types:
  "(t \<in> set (filter (\<lambda>t. t \<in> Type ` set df) [Expense, Sales])) = (t \<in> Type ` set df)"
  by (cases t) simp_all

lemma month_has_group:
  "(\<exists>t\<in>set (filter (\<lambda>t. t \<in> Type ` set df) [Expense, Sales]).
       (Some m, t) \<in> (\<lambda>r. (Month r, Type r)) ` set df)
   = (Some m \<in> Month ` set df)"
proof
  assume "\<exists>t\<in>set (filter (\<lambda>t. t \<in> Type ` set df) [Expense, Sales]).
       (Some m, t) \<in> (\<lambda>r. (Month r, Type r)) ` set df"
  then obtain t r where "r \<in> set df" "(Some m, t) = (Month r, Type r)"
    by blast
  then show "Some m \<in> Month ` set df" by (simp add: image_iff) blast
next
  assume "Some m \<in> Month ` set df"
  then obtain r where r: "r \<in> set df" "Some m = Month r" by blast
  then have "Type r \<in> Type ` set df" by simp
  then have "Type r \<in> set (filter (\<lambda>t. t \<in> Type ` set df) [Expense, Sales])"
    by (simp only: set_types)
  moreover have "(Some m, Type r) \<in> (\<lambda>r. (Month r, Type r)) ` set df"
    using r by (simp add: image_iff) blast
  ultimately show "\<exists>t\<in>set (filter (\<lambda>t. t \<in> Type ` set df) [Expense, Sales]).
       (Some m, t) \<in> (\<lambda>r. (Month r, Type r)) ` set df"
    by blast
qed

lemma some_type_present:
  "(\<exists>t\<in>set (filter (\<lambda>t. t \<in> Type ` set df) [Expense, Sales]). True) = (df \<noteq> [])"
proof (cases df)
  case Nil
  then show ?thesis by simp
next
  case (Cons r rs)
  then have "Type r \<in> Type ` set df" by simp
  then have "Type r \<in> set (filter (\<lambda>t. t \<in> Type ` set df) [Expense, Sales])"
    by (simp only: set_types)
  then have "\<exists>t\<in>set (filter (\<lambda>t. t \<in> Type ` set df) [Expense, Sales]). True"
    by blast
  then show ?thesis using Cons by simp
qed

lemma fst_summary:
  "map fst (groupby_Month_Type observed df) = map fst (group_keys observed df)"
  unfolding groupby_Month_Type_def map_map comp_def fst_conv by (rule refl)

lemma months_of_summary_observed:
  "unique (map fst (groupby_Month_Type True df)) = filter (\<lambda>m. Some m \<in> Month ` set df) month_order"
proof -
  have g: "group_keys True df = filter (\<lambda>k. (Some (fst k), snd k) \<in> (\<lambda>r. (Month r, Type r)) ` set df)
       (List.product month_order (filter (\<lambda>t. t \<in> Type ` set df) [Expense, Sales]))"
    unfolding group_keys_def by (simp only: if_True)
  show ?thesis
    unfolding fst_summary g unique_fst_product [OF distinct_month_order] fst_conv snd_conv
      month_has_group
    by (rule refl)
qed

lemma months_of_summary_all:
  "unique (map fst (groupby_Month_Type False df)) = (if df = [] then [] else month_order)"
proof -
  have g: "group_keys False df = filter (\<lambda>k. True)
       (List.product month_order (filter (\<lambda>t. t \<in> Type ` set df) [Expense, Sales]))"
    unfolding group_keys_def by (simp only: if_False)
  have "unique (map fst (groupby_Month_Type False df)) = filter (\<lambda>m. df \<noteq> []) month_order"
    unfolding fst_summary g unique_fst_product [OF distinct_month_order] some_type_present
    by (rule refl)
  then show ?thesis by simp
qed

lemma months_of_summary:
  "unique (map fst (groupby_Month_Type observed df)) =
     (if observed then filter (\<lambda>m. Some m \<in> Month ` set df) month_order
      else if df = [] then [] else month_order)"
  by (cases observed) (simp_all only: months_of_summary_observed months_of_summary_all if_True if_False)

lemma filter_eq_distinct:
  "distinct xs \<Longrightarrow> filter (\<lambda>k. k = a) xs = (if a \<in> set xs then [a] else [])"
  by (induction xs) auto

lemma summary_lookup:
  "sum_list (map (\<lambda>k. snd (snd k))
      (filter (\<lambda>k. fst k = m \<and> fst (snd k) = t) (groupby_Month_Type observed df)))
   = sum_list (map Amount (filter (\<lambda>r. Month r = Some m \<and> Type r = t) df))"
proof -
  let ?g = "\<lambda>k. (fst k, snd k,
            sum_list (map Amount (filter (\<lambda>r. Month r = Some (fst k) \<and> Type r = snd k) df)))"
  have sel: "(\<lambda>k. fst (?g k) = m \<and> fst (snd (?g k)) = t) = (\<lambda>k. k = (m, t))"
    by (rule ext) auto
  have "filter (\<lambda>k. fst k = m \<and> fst (snd k) = t) (groupby_Month_Type observed df)
      = map ?g (filter (\<lambda>k. k = (m, t)) (group_keys observed df))"
    unfolding groupby_Month_Type_def filter_map comp_def sel by (rule refl)
  also have "\<dots> = (if (m, t) \<in> set (group_keys observed df) then [?g (m, t)] else [])"
    by (simp add: filter_eq_distinct [OF distinct_group_keys])
  finally have f: "filter (\<lambda>k. fst k = m \<and> fst (snd k) = t) (groupby_Month_Type observed df)
      = (if (m, t) \<in> set (group_keys observed df) then [?g (m, t)] else [])" .
  show ?thesis
  proof (cases "(m, t) \<in> set (group_keys observed df)")
    case True
    then show ?thesis unfolding f by simp
  next
    case False
    have "filter (\<lambda>r. Month r = Some m \<and> Type r = t) df = []"
    proof (rule ccontr)
      assume "filter (\<lambda>r. Month r = Some m \<and> Type r = t) df \<noteq> []"
      then obtain r where "r \<in> set df" "Month r = Some m" "Type r = t"
        by (auto simp: filter_empty_conv)
      then have "(m, t) \<in> set (group_keys observed df)"
        unfolding set_group_keys by force
      with False show False by simp
    qed
    with False show ?thesis unfolding f by simp
  qed
qed

lemma monthly_reviews_eq:
  "monthly_reviews (generate_insights observed ties df) =
     map (monthly_review (groupby_Month_Type observed df))
       (unique (map fst (groupby_Month_Type observed df)))"
  by (simp add: generate_insights_def Let_def)

lemma review_Month_monthly_review: "review_Month (monthly_review summary m) = m"
  by (simp add: monthly_review_def Let_def)

lemma review_months:
  "map review_Month (monthly_reviews (generate_insights observed ties df)) =
     (if observed then filter (\<lambda>m. Some m \<in> Month ` set df) month_order
      else if df = [] then [] else month_order)"
  unfolding monthly_reviews_eq map_map comp_def review_Month_monthly_review map_ident
  by (rule months_of_summary)

lemma review_sides:
  assumes "rv \<in> set (monthly_reviews (generate_insights observed ties df))"
  shows "review_Sales rv =
           sum_list (map Amount (filter (\<lambda>r. Month r = Some (review_Month rv) \<and> Type r = Sales) df))"
    and "review_Expenses rv =
           sum_list (map Amount (filter (\<lambda>r. Month r = Some (review_Month rv) \<and> Type r = Expense) df))"
proof -
  from assms obtain m where rv: "rv = monthly_review (groupby_Month_Type observed df) m"
    unfolding monthly_reviews_eq by auto
  show "review_Sales rv =
           sum_list (map Amount (filter (\<lambda>r. Month r = Some (review_Month rv) \<and> Type r = Sales) df))"
    unfolding rv review_Month_monthly_review
    by (simp add: monthly_review_def Let_def summary_lookup)
  show "review_Expenses rv =
           sum_list (map Amount (filter (\<lambda>r. Month r = Some (review_Month rv) \<and> Type r = Expense) df))"
    unfolding rv review_Month_monthly_review
    by (simp add: monthly_review_def Let_def summary_lookup)
qed

lemma review_Profit_monthly_review:
  "review_Profit (monthly_review summary m) =
     review_Sales (monthly_review summary m) + review_Expenses (monthly_review summary m)"
  by (simp add: monthly_review_def Let_def)

lemma review_Review_monthly_review:
  "review_Review (monthly_review summary m) =
     (if 0 < review_Profit (monthly_review summary m) then
        ''The business performed well this month with a positive profit margin.''
      else if review_Profit (monthly_review summary m) < 0 then
        ''Expenses were higher than sales, resulting in a loss this month. Consider reducing expenses.''
      else ''Sales and expenses were balanced this month.'')"
  by (simp add: monthly_review_def Let_def)

lemma in_monthly_reviews:
  assumes "rv \<in> set (monthly_reviews (generate_insights observed ties df))"
  obtains m where "rv = monthly_review (groupby_Month_Type observed df) m"
  using assms unfolding monthly_reviews_eq by auto

lemma product_Nil_right: "List.product xs [] = []"
  by (induction xs) simp_all

subsection \<open>Totals and profit\<close>

text \<open>
  Claim C2. For every frame, the net profit of the bundle is its total sales plus its
  total expenses, the total sales being the sum of the amounts of the rows typed Sales
  and the total expenses the sum of the amounts of the rows typed Expense; and in every
  monthly review of the bundle the profit is the sales plus the expenses.
\<close>

theorem profit_is_sales_plus_expenses:
  "net_profit (generate_insights observed ties df) =
     total_sales (generate_insights observed ties df) + total_expenses (generate_insights observed ties df)
   \<and> total_sales (generate_insights observed ties df) =
       sum_list (map Amount (filter (\<lambda>r. Type r = Sales) df))
   \<and> total_expenses (generate_insights observed ties df) =
       sum_list (map Amount (filter (\<lambda>r. Type r = Expense) df))
   \<and> (\<forall>rv\<in>set (monthly_reviews (generate_insights observed ties df)).
        review_Profit rv = review_Sales rv + review_Expenses rv)"
proof -
  have "review_Profit rv = review_Sales rv + review_Expenses rv"
    if "rv \<in> set (monthly_reviews (generate_insights observed ties df))" for rv
    using that by (rule in_monthly_reviews) (simp only: review_Profit_monthly_review)
  then show ?thesis
    by (simp add: generate_insights_def Let_def)
qed

text \<open>The scenario of a January sale of 100 and a January expense of 40.\<close>

theorem profit_is_sales_plus_expenses_witness:
  "total_sales (generate_insights True (\<lambda>p. 0)
     ([\<lparr>Date = Timestamp 2024 January 5, Description = Some ''Widget'', Amount = 100, Type = Sales, Month = Some January\<rparr>,
      \<lparr>Date = Timestamp 2024 January 10, Description = Some ''Widget'', Amount = -40, Type = Expense, Month = Some January\<rparr>] :: int txn list)) = 100
   \<and> total_expenses (generate_insights True (\<lambda>p. 0)
     ([\<lparr>Date = Timestamp 2024 January 5, Description = Some ''Widget'', Amount = 100, Type = Sales, Month = Some January\<rparr>,
      \<lparr>Date = Timestamp 2024 January 10, Description = Some ''Widget'', Amount = -40, Type = Expense, Month = Some January\<rparr>] :: int txn list)) = -40
   \<and> net_profit (generate_insights True (\<lambda>p. 0)
     ([\<lparr>Date = Timestamp 2024 January 5, Description = Some ''Widget'', Amount = 100, Type = Sales, Month = Some January\<rparr>,
      \<lparr>Date = Timestamp 2024 January 10, Description = Some ''Widget'', Amount = -40, Type = Expense, Month = Some January\<rparr>] :: int txn list)) = 60
   \<and> monthly_reviews (generate_insights True (\<lambda>p. 0)
     ([\<lparr>Date = Timestamp 2024 January 5, Description = Some ''Widget'', Amount = 100, Type = Sales, Month = Some January\<rparr>,
      \<lparr>Date = Timestamp 2024 January 10, Description = Some ''Widget'', Amount = -40, Type = Expense, Month = Some January\<rparr>] :: int txn list))
     = [\<lparr>review_Month = January, review_Sales = 100, review_Expenses = -40, review_Profit = 60, review_Review = ''The business performed well this month with a positive profit margin.''\<rparr>]"
proof -
  let ?df = "([\<lparr>Date = Timestamp 2024 January 5, Description = Some ''Widget'', Amount = 100, Type = Sales, Month = Some January\<rparr>,
      \<lparr>Date = Timestamp 2024 January 10, Description = Some ''Widget'', Amount = -40, Type = Expense, Month = Some January\<rparr>] :: int txn list)"
  have t: "total_sales (generate_insights True (\<lambda>p. 0) ?df) = 100"
          "total_expenses (generate_insights True (\<lambda>p. 0) ?df) = -40"
    by code_simp+
  have r: "monthly_reviews (generate_insights True (\<lambda>p. 0) ?df)
     = [\<lparr>review_Month = January, review_Sales = 100, review_Expenses = -40, review_Profit = 60, review_Review = ''The business performed well this month with a positive profit margin.''\<rparr>]"
    by code_simp
  from profit_is_sales_plus_expenses [where observed = True and df = ?df and ties = "\<lambda>p. 0"] t r show ?thesis
    by simp
qed

subsection \<open>One review per month, in calendar order\<close>

text \<open>
  Claim C3, as the code has it. The months of the reviews are always in calendar order,
  January to December, whatever the order of the rows, no month twice. When the grouping
  of line 104 reports observed groups only, the months reviewed are exactly the months
  that occur in the frame. When it reports every category (the library's default before
  pandas 3.0), a frame that is not empty gets a review for each of the twelve months,
  also for the months without rows, and an empty frame gets none. In both cases the
  sales of a review are the sum of the amounts of that month's Sales rows and its
  expenses the sum of the amounts of that month's Expense rows, so a month with rows of
  one type only has 0 for the other, and a month without rows has 0 for sales, expenses
  and profit. A row without a month (its date is NaT) is in no review.
\<close>

theorem monthly_reviews_by_calendar:
  "map review_Month (monthly_reviews (generate_insights True ties df)) =
     filter (\<lambda>m. Some m \<in> Month ` set df)
       [January, February, March, April, May, June,
        July, August, September, October, November, December]
   \<and> map review_Month (monthly_reviews (generate_insights False ties df)) =
       (if df = [] then []
        else [January, February, March, April, May, June,
              July, August, September, October, November, December])
   \<and> (\<forall>rv\<in>set (monthly_reviews (generate_insights observed ties df)).
        review_Sales rv =
          sum_list (map Amount (filter (\<lambda>r. Month r = Some (review_Month rv) \<and> Type r = Sales) df))
      \<and> review_Expenses rv =
          sum_list (map Amount (filter (\<lambda>r. Month r = Some (review_Month rv) \<and> Type r = Expense) df))
      \<and> ((\<forall>r\<in>set df. Month r = Some (review_Month rv) \<longrightarrow> Type r = Sales) \<longrightarrow> review_Expenses rv = 0)
      \<and> ((\<forall>r\<in>set df. Month r = Some (review_Month rv) \<longrightarrow> Type r = Expense) \<longrightarrow> review_Sales rv = 0)
      \<and> ((\<forall>r\<in>set df. Month r \<noteq> Some (review_Month rv)) \<longrightarrow>
           review_Sales rv = 0 \<and> review_Expenses rv = 0 \<and> review_Profit rv = 0))"
proof (intro conjI ballI impI)
  show "map review_Month (monthly_reviews (generate_insights True ties df)) =
     filter (\<lambda>m. Some m \<in> Month ` set df)
       [January, February, March, April, May, June,
        July, August, September, October, November, December]"
    unfolding review_months month_order_def by (simp only: if_True)
  show "map review_Month (monthly_reviews (generate_insights False ties df)) =
       (if df = [] then []
        else [January, February, March, April, May, June,
              July, August, September, October, November, December])"
    unfolding review_months month_order_def by (simp only: if_False)
next
  fix rv assume rv: "rv \<in> set (monthly_reviews (generate_insights observed ties df))"
  show s: "review_Sales rv =
          sum_list (map Amount (filter (\<lambda>r. Month r = Some (review_Month rv) \<and> Type r = Sales) df))"
    using rv by (rule review_sides)
  show e: "review_Expenses rv =
          sum_list (map Amount (filter (\<lambda>r. Month r = Some (review_Month rv) \<and> Type r = Expense) df))"
    using rv by (rule review_sides)
  {
    assume "\<forall>r\<in>set df. Month r = Some (review_Month rv) \<longrightarrow> Type r = Sales"
    then have "filter (\<lambda>r. Month r = Some (review_Month rv) \<and> Type r = Expense) df = []"
      by (auto simp: filter_empty_conv)
    then show "review_Expenses rv = 0" unfolding e by simp
  }
  {
    assume "\<forall>r\<in>set df. Month r = Some (review_Month rv) \<longrightarrow> Type r = Expense"
    then have "filter (\<lambda>r. Month r = Some (review_Month rv) \<and> Type r = Sales) df = []"
      by (auto simp: filter_empty_conv)
    then show "review_Sales rv = 0" unfolding s by simp
  }
  {
    assume n: "\<forall>r\<in>set df. Month r \<noteq> Some (review_Month rv)"
    then have fs: "filter (\<lambda>r. Month r = Some (review_Month rv) \<and> Type r = Sales) df = []"
      by (auto simp: filter_empty_conv)
    from n have fe: "filter (\<lambda>r. Month r = Some (review_Month rv) \<and> Type r = Expense) df = []"
      by (auto simp: filter_empty_conv)
    show zs: "review_Sales rv = 0" unfolding s fs by simp
    show ze: "review_Expenses rv = 0" unfolding e fe by simp
    from rv obtain m where "rv = monthly_review (groupby_Month_Type observed df) m"
      by (rule in_monthly_reviews)
    then have "review_Profit rv = review_Sales rv + review_Expenses rv"
      by (simp only: review_Profit_monthly_review)
    then show "review_Profit rv = 0" unfolding zs ze by simp
  }
qed

text \<open>A March sale listed before a sale without a date and a January expense.\<close>

theorem monthly_reviews_by_calendar_witness:
  "map (\<lambda>rv. (review_Month rv, review_Sales rv, review_Expenses rv))
     (monthly_reviews (generate_insights True (\<lambda>p. 0)
     ([\<lparr>Date = Timestamp 2024 March 5, Description = Some ''Widget'', Amount = 100, Type = Sales, Month = Some March\<rparr>,
      \<lparr>Date = NaT, Description = Some ''Gift'', Amount = 7, Type = Sales, Month = None\<rparr>,
      \<lparr>Date = Timestamp 2024 January 10, Description = Some ''Rent'', Amount = -40, Type = Expense, Month = Some January\<rparr>] :: int txn list)))
   = [(January, 0, -40), (March, 100, 0)]"
proof -
  let ?df = "([\<lparr>Date = Timestamp 2024 March 5, Description = Some ''Widget'', Amount = 100, Type = Sales, Month = Some March\<rparr>,
      \<lparr>Date = NaT, Description = Some ''Gift'', Amount = 7, Type = Sales, Month = None\<rparr>,
      \<lparr>Date = Timestamp 2024 January 10, Description = Some ''Rent'', Amount = -40, Type = Expense, Month = Some January\<rparr>] :: int txn list)"
  let ?a = "\<lparr>review_Month = January, review_Sales = 0, review_Expenses = -40, review_Profit = -40, review_Review = ''Expenses were higher than sales, resulting in a loss this month. Consider reducing expenses.''\<rparr>"
  let ?b = "\<lparr>review_Month = March, review_Sales = 100, review_Expenses = 0, review_Profit = 100, review_Review = ''The business performed well this month with a positive profit margin.''\<rparr>"
  have r: "monthly_reviews (generate_insights True (\<lambda>p. 0) ?df) = [?a, ?b]"
    by code_simp
  from monthly_reviews_by_calendar [where observed = True and df = ?df and ties = "\<lambda>p. 0"] r show ?thesis
    by simp
qed

text \<open>
  Claim C3 as it is written says that a month absent from the data has no review. With
  the grouping that reports every category, one January sale gives twelve reviews, eleven
  of them for months without rows.
\<close>

theorem review_for_absent_month_counterexample:
  "monthly_reviews (generate_insights False (\<lambda>p. 0)
     ([\<lparr>Date = Timestamp 2024 January 5, Description = Some ''Widget'', Amount = 100, Type = Sales, Month = Some January\<rparr>] :: int txn list))
   = [\<lparr>review_Month = January, review_Sales = 100, review_Expenses = 0, review_Profit = 100, review_Review = ''The business performed well this month with a positive profit margin.''\<rparr>,
      \<lparr>review_Month = February, review_Sales = 0, review_Expenses = 0, review_Profit = 0, review_Review = ''Sales and expenses were balanced this month.''\<rparr>,
      \<lparr>review_Month = March, review_Sales = 0, review_Expenses = 0, review_Profit = 0, review_Review = ''Sales and expenses were balanced this month.''\<rparr>,
      \<lparr>review_Month = April, review_Sales = 0, review_Expenses = 0, review_Profit = 0, review_Review = ''Sales and expenses were balanced this month.''\<rparr>,
      \<lparr>review_Month = May, review_Sales = 0, review_Expenses = 0, review_Profit = 0, review_Review = ''Sales and expenses were balanced this month.''\<rparr>,
      \<lparr>review_Month = June, review_Sales = 0, review_Expenses = 0, review_Profit = 0, review_Review = ''Sales and expenses were balanced this month.''\<rparr>,
      \<lparr>review_Month = July, review_Sales = 0, review_Expenses = 0, review_Profit = 0, review_Review = ''Sales and expenses were balanced this month.''\<rparr>,
      \<lparr>review_Month = August, review_Sales = 0, review_Expenses = 0, review_Profit = 0, review_Review = ''Sales and expenses were balanced this month.''\<rparr>,
      \<lparr>review_Month = September, review_Sales = 0, review_Expenses = 0, review_Profit = 0, review_Review = ''Sales and expenses were balanced this month.''\<rparr>,
      \<lparr>review_Month = October, review_Sales = 0, review_Expenses = 0, review_Profit = 0, review_Review = ''Sales and expenses were balanced this month.''\<rparr>,
      \<lparr>review_Month = November, review_Sales = 0, review_Expenses = 0, review_Profit = 0, review_Review = ''Sales and expenses were balanced this month.''\<rparr>,
      \<lparr>review_Month = December, review_Sales = 0, review_Expenses = 0, review_Profit = 0, review_Review = ''Sales and expenses were balanced this month.''\<rparr>]"
  by code_simp

subsection \<open>Narration\<close>

text \<open>
  Claim C6. The narration of every monthly review is decided by the sign of its profit:
  the positive-performance message when the profit is greater than 0, the warning that
  expenses exceeded sales when it is less than 0, and the balanced message when it is
  exactly 0.
\<close>

theorem narration_by_profit_sign:
  assumes "rv \<in> set (monthly_reviews (generate_insights observed ties df))"
  shows "(0 < review_Profit rv \<longrightarrow> review_Review rv =
            ''The business performed well this month with a positive profit margin.'')
       \<and> (review_Profit rv < 0 \<longrightarrow> review_Review rv =
            ''Expenses were higher than sales, resulting in a loss this month. Consider reducing expenses.'')
       \<and> (review_Profit rv = 0 \<longrightarrow> review_Review rv =
            ''Sales and expenses were balanced this month.'')"
proof -
  from assms obtain m where rv: "rv = monthly_review (groupby_Month_Type observed df) m"
    by (rule in_monthly_reviews)
  show ?thesis
    unfolding rv by (simp add: review_Review_monthly_review)
qed

text \<open>A month with a profit of 60, a month with a loss of 10 and a balanced month.\<close>

theorem narration_by_profit_sign_witness:
  "map (\<lambda>rv. (review_Profit rv, review_Review rv)) (monthly_reviews (generate_insights True (\<lambda>p. 0)
     ([\<lparr>Date = Timestamp 2024 January 5, Description = Some ''Widget'', Amount = 100, Type = Sales, Month = Some January\<rparr>,
      \<lparr>Date = Timestamp 2024 January 10, Description = Some ''Widget'', Amount = -40, Type = Expense, Month = Some January\<rparr>,
      \<lparr>Date = Timestamp 2024 February 1, Description = Some ''Rent'', Amount = -30, Type = Expense, Month = Some February\<rparr>,
      \<lparr>Date = Timestamp 2024 February 2, Description = Some ''Gadget'', Amount = 20, Type = Sales, Month = Some February\<rparr>,
      \<lparr>Date = Timestamp 2024 March 1, Description = Some ''Gadget'', Amount = 50, Type = Sales, Month = Some March\<rparr>,
      \<lparr>Date = Timestamp 2024 March 2, Description = Some ''Rent'', Amount = -50, Type = Expense, Month = Some March\<rparr>] :: int txn list)))
   = [(60, ''The business performed well this month with a positive profit margin.''),
      (-10, ''Expenses were higher than sales, resulting in a loss this month. Consider reducing expenses.''),
      (0, ''Sales and expenses were balanced this month.'')]"
proof -
  let ?df = "([\<lparr>Date = Timestamp 2024 January 5, Description = Some ''Widget'', Amount = 100, Type = Sales, Month = Some January\<rparr>,
      \<lparr>Date = Timestamp 2024 January 10, Description = Some ''Widget'', Amount = -40, Type = Expense, Month = Some January\<rparr>,
      \<lparr>Date = Timestamp 2024 February 1, Description = Some ''Rent'', Amount = -30, Type = Expense, Month = Some February\<rparr>,
      \<lparr>Date = Timestamp 2024 February 2, Description = Some ''Gadget'', Amount = 20, Type = Sales, Month = Some February\<rparr>,
      \<lparr>Date = Timestamp 2024 March 1, Description = Some ''Gadget'', Amount = 50, Type = Sales, Month = Some March\<rparr>,
      \<lparr>Date = Timestamp 2024 March 2, Description = Some ''Rent'', Amount = -50, Type = Expense, Month = Some March\<rparr>] :: int txn list)"
  let ?a = "\<lparr>review_Month = January, review_Sales = 100, review_Expenses = -40, review_Profit = 60, review_Review = ''The business performed well this month with a positive profit margin.''\<rparr>"
  let ?b = "\<lparr>review_Month = February, review_Sales = 20, review_Expenses = -30, review_Profit = -10, review_Review = ''Expenses were higher than sales, resulting in a loss this month. Consider reducing expenses.''\<rparr>"
  let ?c = "\<lparr>review_Month = March, review_Sales = 50, review_Expenses = -50, review_Profit = 0, review_Review = ''Sales and expenses were balanced this month.''\<rparr>"
  have r: "monthly_reviews (generate_insights True (\<lambda>p. 0) ?df) = [?a, ?b, ?c]"
    by code_simp
  have "?a \<in> set (monthly_reviews (generate_insights True (\<lambda>p. 0) ?df))"
       "?b \<in> set (monthly_reviews (generate_insights True (\<lambda>p. 0) ?df))"
       "?c \<in> set (monthly_reviews (generate_insights True (\<lambda>p. 0) ?df))"
    unfolding r by simp_all
  from this [THEN narration_by_profit_sign] r show ?thesis
    by simp
qed

subsection \<open>The empty frame\<close>

text \<open>
  Claim C7. On an empty frame the insight engine returns a bundle whose total sales,
  total expenses and net profit are 0 and whose monthly summary, monthly reviews and
  product ranking (with its top and bottom slices) are empty. The function has no
  failing branch, so this is also the statement that it raises nothing.
\<close>

theorem empty_frame_gives_empty_insights:
  "generate_insights observed ties [] =
     \<lparr>total_sales = 0, total_expenses = 0, net_profit = 0, monthly_summary = [],
      monthly_reviews = [], product_performance = [], top_products = [],
      underperforming_products = []\<rparr>"
  by (simp add: generate_insights_def Let_def groupby_Month_Type_def group_keys_def
        product_Nil_right unique_def groupby_Description_def sort_values_desc_def
        head_def tail_def)

theorem empty_frame_gives_empty_insights_witness:
  "total_sales (generate_insights False (\<lambda>p. 0) ([] :: int txn list)) = 0
   \<and> monthly_reviews (generate_insights False (\<lambda>p. 0) ([] :: int txn list)) = []
   \<and> product_performance (generate_insights False (\<lambda>p. 0) ([] :: int txn list)) = []"
  using empty_frame_gives_empty_insights [where observed = False and ties = "\<lambda>p::string \<times> int. 0"] by simp

subsection \<open>The product ranking\<close>

lemma descending_sort_values_desc:
  "sorted_wrt (\<lambda>x y. y \<le> x) (map key (sort_values_desc ties key xs))"
proof -
  have "sorted (map key (sort_key key (rev (sort_key ties xs))))"
    by (rule sorted_sort_key)
  then have "sorted_wrt (\<lambda>x y. y \<le> x) (rev (map key (sort_key key (rev (sort_key ties xs)))))"
    by (simp only: sorted_wrt_rev)
  then show ?thesis
    by (simp only: sort_values_desc_def rev_map)
qed

lemma mset_sort_values_desc: "mset (sort_values_desc ties key xs) = mset xs"
  by (simp add: sort_values_desc_def)

lemma set_map_filter_Some:
  "set (List.map_filter f xs) = {y. \<exists>x. x \<in> set xs \<and> f x = Some y}"
  by (induction xs) (auto simp: List.map_filter_simps split: option.splits)

lemma fst_groupby_Description:
  "map fst (groupby_Description df) = sort (remdups (List.map_filter Description df))"
  by (simp add: groupby_Description_def comp_def)

lemma in_groupby_Description:
  assumes "p \<in> set (groupby_Description df)"
  shows "snd p = sum_list (map Amount (filter (\<lambda>r. Description r = Some (fst p)) df))"
  using assms by (auto simp: groupby_Description_def)

text \<open>
  The rank \<open>ties\<close> stands for every outcome the library's sort can have: whatever
  rearrangement of distinct rows in descending order of the keys the sort returns, some
  rank gives it.
\<close>

lemma index_takeWhile:
  assumes "distinct ys" and "i < length ys"
  shows "length (takeWhile (\<lambda>y. y \<noteq> ys ! i) ys) = i"
  using assms
proof (induction ys arbitrary: i)
  case Nil
  then show ?case by simp
next
  case (Cons y ys)
  show ?case
  proof (cases i)
    case 0
    then show ?thesis by simp
  next
    case (Suc j)
    with Cons.prems have j: "j < length ys" and d: "distinct ys" and n: "y \<notin> set ys"
      by simp_all
    from j n have "ys ! j \<noteq> y" by (metis nth_mem)
    with Cons.IH [OF d j] Suc show ?thesis by simp
  qed
qed

lemma every_tie_order_is_modelled:
  assumes "mset ys = mset xs" and "distinct ys"
    and "sorted_wrt (\<lambda>x y. key y \<le> key x) ys"
  shows "\<exists>ties. sort_values_desc ties key xs = ys"
proof -
  define ties where "ties x = length (takeWhile (\<lambda>y. y \<noteq> x) ys)" for x
  have idx: "ties (ys ! i) = i" if "i < length ys" for i
    unfolding ties_def using assms(2) that by (rule index_takeWhile)
  have "map ties ys = [0..<length ys]"
    by (rule nth_equalityI) (simp_all add: idx)
  then have s: "sorted (map ties ys)" by simp
  have inj: "x = y" if "x \<in> set ys" "y \<in> set ys" "ties x = ties y" for x y
  proof -
    from that(1) obtain i where i: "i < length ys" "x = ys ! i"
      by (auto simp: in_set_conv_nth)
    from that(2) obtain j where j: "j < length ys" "y = ys ! j"
      by (auto simp: in_set_conv_nth)
    from that(3) have "i = j" unfolding i(2) j(2) by (simp only: idx [OF i(1)] idx [OF j(1)])
    then show ?thesis by (simp only: i(2) j(2))
  qed
  have sx: "set xs = set ys" using assms(1) by (rule mset_eq_setD [symmetric])
  have dx: "distinct xs"
    using mset_eq_imp_distinct_iff [OF assms(1)] assms(2) by blast
  have f: "filter (\<lambda>x. ties k = ties x) zs = [k]"
    if "k \<in> set zs" "distinct zs" "set zs = set ys" for k zs
  proof -
    have "filter (\<lambda>x. ties k = ties x) zs = filter (\<lambda>x. x = k) zs"
    proof (rule filter_cong [OF refl])
      fix x assume "x \<in> set zs"
      then show "(ties k = ties x) = (x = k)"
        using inj [of k x] that(1,3) by auto
    qed
    also have "\<dots> = [k]" using that(1) by (simp only: filter_eq_distinct [OF that(2)] if_True)
    finally show ?thesis .
  qed
  have 1: "sort_key ties xs = ys"
  proof (rule properties_for_sort_key)
    show "mset ys = mset xs" by (rule assms(1))
    show "sorted (map ties ys)" by (rule s)
    fix k assume k: "k \<in> set ys"
    have "filter (\<lambda>x. ties k = ties x) ys = [k]"
      using k assms(2) by (intro f) simp_all
    moreover have "filter (\<lambda>x. ties k = ties x) xs = [k]"
      using k dx sx by (intro f) simp_all
    ultimately show "filter (\<lambda>x. ties k = ties x) ys = filter (\<lambda>x. ties k = ties x) xs"
      by simp
  qed
  have "sorted_wrt (\<lambda>x y. key x \<le> key y) (rev ys)"
    using assms(3) by (simp only: sorted_wrt_rev)
  then have "sorted (map key (rev ys))"
    by (simp only: sorted_map)
  then have "sort_key key (rev ys) = rev ys"
    by (rule sort_key_id_if_sorted)
  then have 2: "sort_values_desc ties key xs = ys"
    by (simp add: sort_values_desc_def 1)
  show ?thesis
    by (rule exI [of _ ties]) (rule 2)
qed

text \<open>
  Claim C5, as the code has it. The ranking has one entry for every description of a
  Sales row, with the sum of the amounts of the Sales rows of that description (a row
  without a description is in no entry), and the sums descend along it. The top
  products are its first five entries and the underperforming products its last five
  (all of it when it has fewer than five), so each of the two is sorted as well, and
  when the ranking has at least one and fewer than ten entries the two have more
  entries together than the ranking has: they overlap. All this holds in whatever
  order the sort leaves entries with equal sums.
\<close>

theorem product_ranking_and_slices:
  "let ins = generate_insights observed ties df; ranking = product_performance ins in
     distinct (map fst ranking)
   \<and> set (map fst ranking) = {d. \<exists>r\<in>set df. Type r = Sales \<and> Description r = Some d}
   \<and> (\<forall>p\<in>set ranking.
         snd p = sum_list (map Amount
                   (filter (\<lambda>r. Type r = Sales \<and> Description r = Some (fst p)) df)))
   \<and> sorted_wrt (\<lambda>x y. y \<le> x) (map snd ranking)
   \<and> top_products ins = take 5 ranking
   \<and> underperforming_products ins = drop (length ranking - 5) ranking
   \<and> sorted_wrt (\<lambda>x y. y \<le> x) (map snd (top_products ins))
   \<and> sorted_wrt (\<lambda>x y. y \<le> x) (map snd (underperforming_products ins))
   \<and> (ranking \<noteq> [] \<and> length ranking < 10 \<longrightarrow>
        length ranking < length (top_products ins) + length (underperforming_products ins))"
proof -
  let ?ins = "generate_insights observed ties df"
  let ?S = "filter (\<lambda>r. Type r = Sales) df"
  let ?G = "groupby_Description ?S"
  let ?R = "product_performance ?ins"
  have R: "?R = sort_values_desc ties snd ?G"
    by (simp add: generate_insights_def Let_def)
  have top: "top_products ?ins = take 5 ?R"
    by (simp add: generate_insights_def Let_def head_def)
  have bot: "underperforming_products ?ins = drop (length ?R - 5) ?R"
    by (simp add: generate_insights_def Let_def tail_def)
  have m: "mset ?R = mset ?G"
    unfolding R by (rule mset_sort_values_desc)
  then have "mset (map fst ?R) = mset (map fst ?G)"
    by (simp only: mset_map)
  then have mf: "mset (map fst ?R) = mset (sort (remdups (List.map_filter Description ?S)))"
    by (simp only: fst_groupby_Description)
  have "distinct (sort (remdups (List.map_filter Description ?S)))"
    by simp
  then have 1: "distinct (map fst ?R)"
    using mset_eq_imp_distinct_iff [OF mf] by blast
  have "set (map fst ?R) = set (sort (remdups (List.map_filter Description ?S)))"
    using mf by (rule mset_eq_setD)
  then have "set (map fst ?R) = {d. \<exists>r. r \<in> set ?S \<and> Description r = Some d}"
    by (simp add: set_map_filter_Some)
  then have 2: "set (map fst ?R) = {d. \<exists>r\<in>set df. Type r = Sales \<and> Description r = Some d}"
    by auto
  have s: "set ?R = set ?G"
    using m by (rule mset_eq_setD)
  have ff: "filter (\<lambda>r. Description r = d) ?S = filter (\<lambda>r. Type r = Sales \<and> Description r = d) df"
    for d by simp
  have 3: "\<forall>p\<in>set ?R.
         snd p = sum_list (map Amount
                   (filter (\<lambda>r. Type r = Sales \<and> Description r = Some (fst p)) df))"
  proof
    fix p assume "p \<in> set ?R"
    then have "p \<in> set ?G" by (simp only: s)
    then have "snd p = sum_list (map Amount (filter (\<lambda>r. Description r = Some (fst p)) ?S))"
      by (rule in_groupby_Description)
    then show "snd p = sum_list (map Amount
                   (filter (\<lambda>r. Type r = Sales \<and> Description r = Some (fst p)) df))"
      by (simp only: ff)
  qed
  have 4: "sorted_wrt (\<lambda>x y. y \<le> x) (map snd ?R)"
    unfolding R by (rule descending_sort_values_desc)
  have "sorted_wrt (\<lambda>x y. y \<le> x) (take 5 (map snd ?R))"
    using 4 by (rule sorted_wrt_take)
  then have 5: "sorted_wrt (\<lambda>x y. y \<le> x) (map snd (take 5 ?R))"
    by (simp only: take_map)
  have "sorted_wrt (\<lambda>x y. y \<le> x) (drop (length ?R - 5) (map snd ?R))"
    using 4 by (rule sorted_wrt_drop)
  then have 6: "sorted_wrt (\<lambda>x y. y \<le> x) (map snd (drop (length ?R - 5) ?R))"
    by (simp only: drop_map)
  have 7: "?R \<noteq> [] \<and> length ?R < 10 \<longrightarrow>
        length ?R < length (take 5 ?R) + length (drop (length ?R - 5) ?R)"
    by (cases ?R) (simp_all add: min_def)
  show ?thesis
    unfolding Let_def top bot using 1 2 3 4 5 6 7 by blast
qed

text \<open>Six products: the two slices share four of them.\<close>

theorem product_ranking_and_slices_witness:
  "top_products (generate_insights True (\<lambda>p. 0)
     ([\<lparr>Date = Timestamp 2024 January 1, Description = Some ''Apple'', Amount = 60, Type = Sales, Month = Some January\<rparr>,
      \<lparr>Date = Timestamp 2024 January 2, Description = Some ''Fig'', Amount = 10, Type = Sales, Month = Some January\<rparr>,
      \<lparr>Date = Timestamp 2024 January 3, Description = Some ''Cherry'', Amount = 40, Type = Sales, Month = Some January\<rparr>,
      \<lparr>Date = Timestamp 2024 February 1, Description = Some ''Banana'', Amount = 50, Type = Sales, Month = Some February\<rparr>,
      \<lparr>Date = Timestamp 2024 February 2, Description = Some ''Elder'', Amount = 20, Type = Sales, Month = Some February\<rparr>,
      \<lparr>Date = Timestamp 2024 February 3, Description = Some ''Date'', Amount = 30, Type = Sales, Month = Some February\<rparr>,
      \<lparr>Date = Timestamp 2024 February 4, Description = Some ''Apple'', Amount = -5, Type = Expense, Month = Some February\<rparr>] :: int txn list))
   = [(''Apple'', 60), (''Banana'', 50), (''Cherry'', 40), (''Date'', 30), (''Elder'', 20)]
   \<and> underperforming_products (generate_insights True (\<lambda>p. 0)
     ([\<lparr>Date = Timestamp 2024 January 1, Description = Some ''Apple'', Amount = 60, Type = Sales, Month = Some January\<rparr>,
      \<lparr>Date = Timestamp 2024 January 2, Description = Some ''Fig'', Amount = 10, Type = Sales, Month = Some January\<rparr>,
      \<lparr>Date = Timestamp 2024 January 3, Description = Some ''Cherry'', Amount = 40, Type = Sales, Month = Some January\<rparr>,
      \<lparr>Date = Timestamp 2024 February 1, Description = Some ''Banana'', Amount = 50, Type = Sales, Month = Some February\<rparr>,
      \<lparr>Date = Timestamp 2024 February 2, Description = Some ''Elder'', Amount = 20, Type = Sales, Month = Some February\<rparr>,
      \<lparr>Date = Timestamp 2024 February 3, Description = Some ''Date'', Amount = 30, Type = Sales, Month = Some February\<rparr>,
      \<lparr>Date = Timestamp 2024 February 4, Description = Some ''Apple'', Amount = -5, Type = Expense, Month = Some February\<rparr>] :: int txn list))
   = [(''Banana'', 50), (''Cherry'', 40), (''Date'', 30), (''Elder'', 20), (''Fig'', 10)]"
proof -
  let ?df = "([\<lparr>Date = Timestamp 2024 January 1, Description = Some ''Apple'', Amount = 60, Type = Sales, Month = Some January\<rparr>,
      \<lparr>Date = Timestamp 2024 January 2, Description = Some ''Fig'', Amount = 10, Type = Sales, Month = Some January\<rparr>,
      \<lparr>Date = Timestamp 2024 January 3, Description = Some ''Cherry'', Amount = 40, Type = Sales, Month = Some January\<rparr>,
      \<lparr>Date = Timestamp 2024 February 1, Description = Some ''Banana'', Amount = 50, Type = Sales, Month = Some February\<rparr>,
      \<lparr>Date = Timestamp 2024 February 2, Description = Some ''Elder'', Amount = 20, Type = Sales, Month = Some February\<rparr>,
      \<lparr>Date = Timestamp 2024 February 3, Description = Some ''Date'', Amount = 30, Type = Sales, Month = Some February\<rparr>,
      \<lparr>Date = Timestamp 2024 February 4, Description = Some ''Apple'', Amount = -5, Type = Expense, Month = Some February\<rparr>] :: int txn list)"
  have r: "product_performance (generate_insights True (\<lambda>p. 0) ?df)
    = [(''Apple'', 60), (''Banana'', 50), (''Cherry'', 40), (''Date'', 30), (''Elder'', 20),
       (''Fig'', 10)]"
    by code_simp
  from product_ranking_and_slices [where observed = True and df = ?df and ties = "\<lambda>p. 0"] r
  show ?thesis by (simp add: Let_def)
qed

text \<open>
  Claim C5 as it is written says that entries with equal sums stay in the order of the
  groups, as after a stable sort. Line 131 asks for the library's default sort, which
  is not stable. Where numpy's default sort is vectorised (as it is on current x86
  processors) a short array goes through a sorting network that exchanges two entries
  only when they are strictly out of order. Four products with the sums 100, 100, 200
  and 300, in the order of the groups, reach it reversed, as 300, 200, 100, 100: the
  network exchanges the first two, then the first with the fourth and the second with
  the third, then the last two, and returns Apple, Banana, Cherry, Date; pandas
  reverses that. So the ranking has Banana before Apple, though both have the sum 100
  and Apple is the earlier group. The rank that puts Apple after the others is that
  outcome.
\<close>

theorem equal_sums_not_in_group_order_counterexample:
  "groupby_Description
     ([\<lparr>Date = Timestamp 2024 January 1, Description = Some ''Apple'', Amount = 100, Type = Sales, Month = Some January\<rparr>,
      \<lparr>Date = Timestamp 2024 January 2, Description = Some ''Banana'', Amount = 100, Type = Sales, Month = Some January\<rparr>,
      \<lparr>Date = Timestamp 2024 January 3, Description = Some ''Cherry'', Amount = 200, Type = Sales, Month = Some January\<rparr>,
      \<lparr>Date = Timestamp 2024 January 4, Description = Some ''Date'', Amount = 300, Type = Sales, Month = Some January\<rparr>] :: int txn list)
   = [(''Apple'', 100), (''Banana'', 100), (''Cherry'', 200), (''Date'', 300)]
   \<and> product_performance (generate_insights True (\<lambda>p. if fst p = ''Apple'' then 1 else 0)
     ([\<lparr>Date = Timestamp 2024 January 1, Description = Some ''Apple'', Amount = 100, Type = Sales, Month = Some January\<rparr>,
      \<lparr>Date = Timestamp 2024 January 2, Description = Some ''Banana'', Amount = 100, Type = Sales, Month = Some January\<rparr>,
      \<lparr>Date = Timestamp 2024 January 3, Description = Some ''Cherry'', Amount = 200, Type = Sales, Month = Some January\<rparr>,
      \<lparr>Date = Timestamp 2024 January 4, Description = Some ''Date'', Amount = 300, Type = Sales, Month = Some January\<rparr>] :: int txn list))
   = [(''Date'', 300), (''Cherry'', 200), (''Banana'', 100), (''Apple'', 100)]"
  by code_simp

section \<open>Properties of generate_pdf\<close>

lemma monthly_pages_sections:
  "monthly_pages elements reviews =
     elements @ concat (map (\<lambda>review.
       [Paragraph (''Monthly Performance - '' @ month_name (review_Month review)) Heading2,
        Table [[Label ''Sales'', Naira (review_Sales review)],
               [Label ''Expenses'', Naira \<bar>review_Expenses review\<bar>],
               [Label ''Profit'', Naira (review_Profit review)]] [200, 200],
        Img (MonthlyChart (review_Month review) (review_Sales review) \<bar>review_Expenses review\<bar>)
          400 250,
        Spacer 1 12,
        Paragraph (''**Summary**: '' @ review_Review review) Normal,
        PageBreak]) reviews)"
proof (induction reviews arbitrary: elements)
  case Nil
  show ?case by simp
next
  case (Cons review rest)
  show ?case
    by (simp add: Let_def Cons.IH generate_monthly_chart_def)
qed

lemma sorted_month_codes: "sorted (map month_code month_order)"
  by (simp add: month_order_def month_code_def)

lemma review_months_sorted:
  "sorted (map (\<lambda>rv. month_code (review_Month rv)) (monthly_reviews (generate_insights observed ties df)))"
proof -
  have "sorted (map month_code (map review_Month (monthly_reviews (generate_insights observed ties df))))"
    unfolding review_months
    using sorted_month_codes by (simp add: sorted_filter)
  then show ?thesis by (simp only: map_map comp_def)
qed

text \<open>
  Claim C8, as the code has it. The document is a front part without page break, the
  image of the aggregate chart, a page break, and then one section for every monthly
  review, in the order of the reviews: a heading that names the month, a table of three
  rows (Sales, Expenses, Profit) and two columns, the image of the month's chart, a
  spacer, the narration, and a page break. The reviews of a bundle made by
  \<^verbatim>\<open>generate_insights\<close> are in calendar order, and so are the sections.
\<close>

theorem report_monthly_sections:
  "(\<exists>front. PageBreak \<notin> set front \<and>
      generate_pdf title business_logo business_name today ins =
        front @ [Img (generate_aggregate_chart (monthly_reviews ins)) 400 250, PageBreak] @
        concat (map (\<lambda>review.
          [Paragraph (''Monthly Performance - '' @ month_name (review_Month review)) Heading2,
           Table [[Label ''Sales'', Naira (review_Sales review)],
                  [Label ''Expenses'', Naira \<bar>review_Expenses review\<bar>],
                  [Label ''Profit'', Naira (review_Profit review)]] [200, 200],
           Img (MonthlyChart (review_Month review) (review_Sales review) \<bar>review_Expenses review\<bar>)
             400 250,
           Spacer 1 12,
           Paragraph (''**Summary**: '' @ review_Review review) Normal,
           PageBreak]) (monthly_reviews ins)))
   \<and> sorted (map (\<lambda>rv. month_code (review_Month rv))
        (monthly_reviews (generate_insights observed ties df)))"
proof
  let ?logo = "case business_logo of None \<Rightarrow> [] | Some l \<Rightarrow> [Img (Logo l) 100 100]"
  let ?name = "case business_name of None \<Rightarrow> ''Business Name''
               | Some n \<Rightarrow> if n = [] then ''Business Name'' else n"
  let ?front = "?logo @
     [Paragraph (''<b>'' @ ?name @ ''</b>'') Title,
      Paragraph title Heading2,
      Paragraph (''Report Date: '' @ today) Normal,
      Spacer 1 12,
      Paragraph ''Annual Performance Summary (Detailed)'' Heading2,
      Table (summary_rows [[Label ''Month'', Label ''Sales'', Label ''Expenses'', Label ''Profit'']]
               (monthly_reviews ins)) [100, 100, 100, 100],
      Spacer 1 12,
      Paragraph ''Overall Performance Chart'' Heading2]"
  have "PageBreak \<notin> set ?front"
    by (cases business_logo) simp_all
  moreover have "generate_pdf title business_logo business_name today ins =
        ?front @ [Img (generate_aggregate_chart (monthly_reviews ins)) 400 250, PageBreak] @
        concat (map (\<lambda>review.
          [Paragraph (''Monthly Performance - '' @ month_name (review_Month review)) Heading2,
           Table [[Label ''Sales'', Naira (review_Sales review)],
                  [Label ''Expenses'', Naira \<bar>review_Expenses review\<bar>],
                  [Label ''Profit'', Naira (review_Profit review)]] [200, 200],
           Img (MonthlyChart (review_Month review) (review_Sales review) \<bar>review_Expenses review\<bar>)
             400 250,
           Spacer 1 12,
           Paragraph (''**Summary**: '' @ review_Review review) Normal,
           PageBreak]) (monthly_reviews ins))"
    unfolding generate_pdf_def Let_def monthly_pages_sections by simp
  ultimately show "\<exists>front. PageBreak \<notin> set front \<and>
      generate_pdf title business_logo business_name today ins =
        front @ [Img (generate_aggregate_chart (monthly_reviews ins)) 400 250, PageBreak] @
        concat (map (\<lambda>review.
          [Paragraph (''Monthly Performance - '' @ month_name (review_Month review)) Heading2,
           Table [[Label ''Sales'', Naira (review_Sales review)],
                  [Label ''Expenses'', Naira \<bar>review_Expenses review\<bar>],
                  [Label ''Profit'', Naira (review_Profit review)]] [200, 200],
           Img (MonthlyChart (review_Month review) (review_Sales review) \<bar>review_Expenses review\<bar>)
             400 250,
           Spacer 1 12,
           Paragraph (''**Summary**: '' @ review_Review review) Normal,
           PageBreak]) (monthly_reviews ins))"
    by blast
  show "sorted (map (\<lambda>rv. month_code (review_Month rv))
        (monthly_reviews (generate_insights observed ties df)))"
    by (rule review_months_sorted)
qed

text \<open>
  Claim C8 as it is written gives every section a table of two rows, directly followed
  by the chart, the narration and the page break. The report for a January sale of 100
  and a January expense of 40 ends as follows: the table of the section has three rows,
  a heading stands before it and a spacer after the chart.
\<close>

theorem monthly_table_has_three_rows_counterexample:
  "drop 8 (generate_pdf ''Business Performance Report'' None (Some ''Acme'') ''2024-01-31''
     (generate_insights True (\<lambda>p. 0)
     ([\<lparr>Date = Timestamp 2024 January 5, Description = Some ''Widget'', Amount = 100, Type = Sales, Month = Some January\<rparr>,
      \<lparr>Date = Timestamp 2024 January 10, Description = Some ''Widget'', Amount = -40, Type = Expense, Month = Some January\<rparr>] :: int txn list)))
   = [Img (AggregateChart [January] [100] [40] [60]) 400 250,
      PageBreak,
      Paragraph ''Monthly Performance - January'' Heading2,
      Table [[Label ''Sales'', Naira 100],
             [Label ''Expenses'', Naira 40],
             [Label ''Profit'', Naira 60]] [200, 200],
      Img (MonthlyChart January 100 40) 400 250,
      Spacer 1 12,
      Paragraph ''**Summary**: The business performed well this month with a positive profit margin.'' Normal,
      PageBreak]"
  by code_simp

end
